theory Spec2Isabelle
  imports Main
begin

section \<open>react-twitter-widgets: the mount controller and the event router\<close>

text \<open>
  The development embeds \<^verbatim>\<open>src/index.js\<close>: the hook \<^verbatim>\<open>useTwitterWidget\<close> (one effect
  with an asynchronous \<^verbatim>\<open>loadWidget\<close>), the global tables \<^verbatim>\<open>HANDLERS\<close> and
  \<^verbatim>\<open>BASE_HANDLERS\<close>, the hook \<^verbatim>\<open>useTwitterEvents\<close> and the six components.

  JavaScript runs the code on one thread; an \<^verbatim>\<open>async\<close> function is suspended at each
  \<^verbatim>\<open>await\<close> and resumed later. The model therefore is a state record and one function
  per uninterrupted piece of code: the effect body up to the first \<^verbatim>\<open>await\<close>, the
  continuation after \<^verbatim>\<open>await twWidgetFactory()\<close>, the continuation after the awaited
  factory call, and the cleanup function. An event names the piece that runs next, so
  a list of events is one interleaving.

  The model covers the browser path (\<^verbatim>\<open>canUseDOM\<close> true), where the hook registers its
  effect; on the server the hook returns before \<^verbatim>\<open>useEffect\<close> and nothing below runs.
\<close>

subsection \<open>Values and the object store\<close>

text \<open>
  The primary argument and the options are JavaScript values: a primitive or a
  reference to an object. Objects live in a store, addressed by their index, so that
  two references to one object alias and a clone is a new address.
\<close>

type_synonym addr = nat

datatype jsval = Undefined | Str string | Ref addr

type_synonym jsobj = "(string \<times> jsval) list"

type_synonym store = "jsobj list"

datatype jserror = Error string | TypeError

datatype callback = Callback nat

text \<open>An invocation of a callback: which one, and the argument list it received.\<close>

type_synonym invocation = "callback \<times> jsval list"

text \<open>
  Modelled from the spec: \<^verbatim>\<open>cloneShallow\<close> is imported from \<^verbatim>\<open>./utils\<close>, which is
  missing. The spec calls it a one-level clone of the primary argument and of the
  options: an object is copied field by field into a new object (nested references are
  shared), a primitive is returned as it is. A reference outside the store cannot arise
  in JavaScript; it is returned unchanged.
\<close>

definition cloneShallow :: "jsval \<Rightarrow> store \<Rightarrow> jsval \<times> store" where
  "cloneShallow v h =
     (case v of
        Ref a \<Rightarrow> (if a < length h then (Ref (length h), h @ [h ! a]) else (v, h))
      | _ \<Rightarrow> (v, h))"

text \<open>
  The third-party factory \<^verbatim>\<open>wf[factoryFunctionName]\<close> is known to mutate what it is
  given. It is foreign code: it can follow every reference it finds, so it can write
  to each object that its arguments reach, and to no other object of the caller.
  \<open>edges h\<close> relates an object to the objects its fields refer to; \<open>reaches h args c\<close>:
  the object at \<open>c\<close> is one of the arguments or is linked to one by a chain of fields.
\<close>

definition refs_of :: "jsobj \<Rightarrow> addr list" where
  "refs_of ob = concat (map (\<lambda>kv. case snd kv of Ref a \<Rightarrow> [a] | _ \<Rightarrow> []) ob)"

definition edges :: "store \<Rightarrow> (addr \<times> addr) set" where
  "edges h =
     set (concat (map (\<lambda>a. map (\<lambda>b. (a, b)) (filter (\<lambda>b. b < length h) (refs_of (h ! a))))
                   [0..<length h]))"

definition arg_addrs :: "store \<Rightarrow> jsval list \<Rightarrow> addr list" where
  "arg_addrs h args =
     filter (\<lambda>a. a < length h) (concat (map (\<lambda>v. case v of Ref a \<Rightarrow> [a] | _ \<Rightarrow> []) args))"

definition reaches :: "store \<Rightarrow> jsval list \<Rightarrow> addr \<Rightarrow> bool" where
  "reaches h args c = list_ex (\<lambda>a. a = c \<or> (a, c) \<in> (edges h)\<^sup>+) (arg_addrs h args)"

text \<open>
  What one call does to the store is any function \<open>f\<close> on stores, confined to the
  objects the arguments reach; objects it creates come after the existing ones. The
  call may also throw instead of returning a promise.
\<close>

definition third_party :: "(store \<Rightarrow> store) \<Rightarrow> jsval list \<Rightarrow> store \<Rightarrow> store" where
  "third_party f args h =
     map (\<lambda>c. if reaches h args c \<and> c < length (f h) then f h ! c else h ! c) [0..<length h]
     @ drop (length h) (f h)"

datatype factory_call =
  FactoryCall (writes: "jsval \<Rightarrow> jsval \<Rightarrow> store \<Rightarrow> store") (throws: "jserror option")


subsection \<open>The DOM under the mount point\<close>

text \<open>
  The mount point is the \<^verbatim>\<open>div\<close> that holds the ref; the model keeps the list of the
  children that the hook manages by hand. An element is its identity (a number), its
  tag and its attributes. The third-party factory fills the container it is given and
  is taken not to add or remove children of the mount point itself.
\<close>

record node =
  node_id :: nat
  tag :: string
  attrs :: "(string \<times> string) list"

definition childDivIdentifyingAttribute :: string where
  "childDivIdentifyingAttribute = ''twdiv''"

definition hasAttribute :: "node \<Rightarrow> string \<Rightarrow> bool" where
  "hasAttribute n a = (map_of (attrs n) a \<noteq> None)"

definition createElement :: "string \<Rightarrow> nat \<Rightarrow> node" where
  "createElement t i = \<lparr>node_id = i, tag = t, attrs = []\<rparr>"

definition setAttribute :: "string \<Rightarrow> string \<Rightarrow> node \<Rightarrow> node" where
  "setAttribute a v n = n\<lparr>attrs := (a, v) # filter (\<lambda>kv. fst kv \<noteq> a) (attrs n)\<rparr>"

definition appendChild :: "node \<Rightarrow> node list \<Rightarrow> node list" where
  "appendChild n kids = kids @ [n]"

text \<open>\<^verbatim>\<open>childEl.remove()\<close>: the element leaves its parent; a detached element stays detached.\<close>

definition remove_node :: "nat \<Rightarrow> node list \<Rightarrow> node list" where
  "remove_node i kids = filter (\<lambda>c. node_id c \<noteq> i) kids"

text \<open>
  Modelled from the spec: \<^verbatim>\<open>removeChildrenWithAttribute\<close> is imported from \<^verbatim>\<open>./utils\<close>,
  which is missing. The spec: clear any previously created child container(s) tagged
  with the sentinel marker attribute from the mount point.
\<close>

definition removeChildrenWithAttribute :: "node list \<Rightarrow> string \<Rightarrow> node list" where
  "removeChildrenWithAttribute kids a = filter (\<lambda>c. \<not> hasAttribute c a) kids"

subsection \<open>useTwitterWidget\<close>

text \<open>
  What one run of the effect closes over: the hook's four arguments. A session is one
  run of the effect: its flag \<^verbatim>\<open>isCanceled\<close>, the container \<^verbatim>\<open>childEl\<close> it created (none
  when \<^verbatim>\<open>loadWidget\<close> was never called) and the place where \<^verbatim>\<open>loadWidget\<close> is suspended.
\<close>

record props =
  factoryFunctionName :: string
  primaryArg :: jsval
  options :: jsval
  onLoad :: "callback option"

datatype phase = NotStarted | AwaitWf | AwaitCall | Finished

record session =
  isCanceled :: bool
  childEl :: "nat option"
  phase :: phase
  closure :: props

text \<open>
  The state of one component instance: the React state \<^verbatim>\<open>error\<close>, the children of
  \<^verbatim>\<open>ref.current\<close> (\<open>None\<close> when \<^verbatim>\<open>ref.current\<close> is null), the sessions in the order the
  effect ran, the counter that names new elements, the object store, and three logs:
  \<^verbatim>\<open>console.error\<close>, the callbacks invoked, and the calls of the third-party factory
  (function name, first argument, container, third argument).
\<close>

record wstate =
  error :: "jserror option"
  ref_current :: "node list option"
  sessions :: "session list"
  next_node :: nat
  heap :: store
  console :: "jserror list"
  invoked :: "invocation list"
  factory_calls :: "(string \<times> jsval \<times> nat \<times> jsval) list"

definition initial :: "node list option \<Rightarrow> store \<Rightarrow> wstate" where
  "initial r h =
     \<lparr>error = None, ref_current = r, sessions = [], next_node = 0, heap = h,
      console = [], invoked = [], factory_calls = []\<rparr>"

definition could_not_create :: string where
  "could_not_create =
     ''Twitter could not create widget. If it is a Timeline or '' @
     ''Tweet, ensure the screenName/tweetId exists.''"

text \<open>The cleanup function of the latest run of the effect: \<^verbatim>\<open>isCanceled = true\<close>.\<close>

definition cleanup :: "wstate \<Rightarrow> wstate" where
  "cleanup s =
     (if sessions s = [] then s
      else s\<lparr>sessions :=
               (sessions s)[length (sessions s) - 1 :=
                  (last (sessions s))\<lparr>isCanceled := True\<rparr>]\<rparr>)"

text \<open>
  \<^verbatim>\<open>loadWidget\<close> up to its first \<^verbatim>\<open>await\<close> (lines 54 to 64), for the session \<open>k\<close> that
  calls it: return when \<^verbatim>\<open>ref.current\<close> is missing; otherwise create the container, tag it,
  append it, call \<^verbatim>\<open>twWidgetFactory()\<close> and wait.
\<close>

definition loadWidget :: "nat \<Rightarrow> wstate \<Rightarrow> wstate" where
  "loadWidget k s =
     (case ref_current s of
        None \<Rightarrow> s
      | Some kids \<Rightarrow>
          (let childEl0 = createElement ''div'' (next_node s);
               el = setAttribute childDivIdentifyingAttribute ''yes'' childEl0
           in s\<lparr>ref_current := Some (appendChild el kids),
                 next_node := Suc (next_node s),
                 sessions := (sessions s)[k := (sessions s ! k)
                   \<lparr>childEl := Some (node_id el), phase := AwaitWf\<rparr>]\<rparr>))"

text \<open>
  The effect body (lines 42 to 112): reset the error, start a session with
  \<^verbatim>\<open>isCanceled = false\<close>, and when \<^verbatim>\<open>ref.current\<close> exists sweep the tagged children and
  call \<^verbatim>\<open>loadWidget\<close>. The function it returns is \<open>cleanup\<close>.
\<close>

definition useTwitterWidget_effect :: "props \<Rightarrow> wstate \<Rightarrow> wstate" where
  "useTwitterWidget_effect p s =
     (let s1 = s\<lparr>error := None\<rparr>;
          s2 = s1\<lparr>sessions := sessions s1 @
                 [\<lparr>isCanceled = False, childEl = None, phase = NotStarted, closure = p\<rparr>]\<rparr>
      in case ref_current s2 of
           None \<Rightarrow> s2
         | Some kids \<Rightarrow>
             loadWidget (length (sessions s1))
               (s2\<lparr>ref_current :=
                      Some (removeChildrenWithAttribute kids childDivIdentifyingAttribute)\<rparr>))"

definition set_phase :: "nat \<Rightarrow> phase \<Rightarrow> wstate \<Rightarrow> wstate" where
  "set_phase k ph s = s\<lparr>sessions := (sessions s)[k := (sessions s ! k)\<lparr>phase := ph\<rparr>]\<rparr>"

text \<open>The \<^verbatim>\<open>catch\<close> block: \<^verbatim>\<open>console.error(e); setError(e); return\<close>.\<close>

definition catch_block :: "nat \<Rightarrow> jserror \<Rightarrow> wstate \<Rightarrow> wstate" where
  "catch_block k e s = set_phase k Finished (s\<lparr>console := console s @ [e], error := Some e\<rparr>)"

text \<open>
  The continuation after \<^verbatim>\<open>await twWidgetFactory()\<close>. A rejection goes to the
  \<^verbatim>\<open>catch\<close> block. Otherwise both arguments are cloned, the factory function is called
  with the clones and the container, and \<^verbatim>\<open>loadWidget\<close> waits for the promise (or
  catches what the call throws). A session that waits here has its container; the
  branch without one is never taken.
\<close>

datatype wf_outcome = WfRejected jserror | WfLoaded factory_call

definition wf_settled :: "nat \<Rightarrow> wf_outcome \<Rightarrow> wstate \<Rightarrow> wstate" where
  "wf_settled k out s =
     (if k < length (sessions s) \<and> phase (sessions s ! k) = AwaitWf then
        (case out of
           WfRejected e \<Rightarrow> catch_block k e s
         | WfLoaded fc \<Rightarrow>
             (case childEl (sessions s ! k) of
                None \<Rightarrow> s
              | Some el \<Rightarrow>
                  (let p = closure (sessions s ! k);
                       (a1, h1) = cloneShallow (primaryArg p) (heap s);
                       (a3, h2) = cloneShallow (options p) h1;
                       h3 = third_party (writes fc a1 a3) [a1, a3] h2;
                       s1 = s\<lparr>heap := h3,
                              factory_calls := factory_calls s @
                                [(factoryFunctionName p, a1, el, a3)]\<rparr>
                   in case throws fc of
                        Some e \<Rightarrow> catch_block k e s1
                      | None \<Rightarrow> set_phase k AwaitCall s1)))
      else s)"

text \<open>
  The code after the \<^verbatim>\<open>try\<close> statement (lines 90 to 103): nothing when \<^verbatim>\<open>ref.current\<close>
  is gone; a canceled session removes its container; otherwise \<^verbatim>\<open>onLoad\<close>, when given,
  is called with no argument.
\<close>

definition after_try :: "nat \<Rightarrow> wstate \<Rightarrow> wstate" where
  "after_try k s =
     (let ses = sessions s ! k; s1 = set_phase k Finished s in
      case ref_current s1 of
        None \<Rightarrow> s1
      | Some kids \<Rightarrow>
          if isCanceled ses then
            (case childEl ses of
               None \<Rightarrow> s1
             | Some el \<Rightarrow> s1\<lparr>ref_current := Some (remove_node el kids)\<rparr>)
          else
            (case onLoad (closure ses) of
               None \<Rightarrow> s1
             | Some cb \<Rightarrow> s1\<lparr>invoked := invoked s1 @ [(cb, [])]\<rparr>))"

text \<open>
  The continuation after the awaited factory call. \<open>CallResolved r\<close> is a promise
  fulfilled with a value whose truthiness is \<open>r\<close> (\<^verbatim>\<open>resultMaybe\<close>).
\<close>

datatype call_outcome = CallRejected jserror | CallResolved bool

definition call_settled :: "nat \<Rightarrow> call_outcome \<Rightarrow> wstate \<Rightarrow> wstate" where
  "call_settled k out s =
     (if k < length (sessions s) \<and> phase (sessions s ! k) = AwaitCall then
        (case out of
           CallRejected e \<Rightarrow> catch_block k e s
         | CallResolved resultMaybe \<Rightarrow>
             if \<not> resultMaybe \<and> \<not> isCanceled (sessions s ! k)
             then catch_block k (Error could_not_create) s
             else after_try k s)
      else s)"

text \<open>
  Events. \<open>RunEffect p\<close>: the dependencies changed (or the component mounted), so React
  runs the cleanup of the previous run and then the effect with the new closure.
  \<open>Unmount\<close>: React clears \<^verbatim>\<open>ref.current\<close> and runs the last cleanup. The other two resume
  session \<open>k\<close>.
\<close>

datatype event =
  RunEffect props
| Unmount
| WfSettled nat wf_outcome
| CallSettled nat call_outcome

fun step :: "wstate \<Rightarrow> event \<Rightarrow> wstate" where
  "step s (RunEffect p) = useTwitterWidget_effect p (cleanup s)"
| "step s Unmount = cleanup (s\<lparr>ref_current := None\<rparr>)"
| "step s (WfSettled k out) = wf_settled k out s"
| "step s (CallSettled k out) = call_settled k out s"

definition run :: "wstate \<Rightarrow> event list \<Rightarrow> wstate" where
  "run s evs = foldl step s evs"

definition tagged_children :: "wstate \<Rightarrow> node list" where
  "tagged_children s =
     (case ref_current s of
        None \<Rightarrow> []
      | Some kids \<Rightarrow> filter (\<lambda>c. hasAttribute c childDivIdentifyingAttribute) kids)"

subsection \<open>The components\<close>

text \<open>
  Each component fixes the factory function name and renders
  \<^verbatim>\<open>error && renderError && renderError(error)\<close> inside its mount point.
\<close>

datatype component = Follow | Hashtag | Mention | Share | Timeline | Tweet

fun factory_name :: "component \<Rightarrow> string" where
  "factory_name Follow = ''createFollowButton''"
| "factory_name Hashtag = ''createHashtagButton''"
| "factory_name Mention = ''createMentionButton''"
| "factory_name Share = ''createShareButton''"
| "factory_name Timeline = ''createTimeline''"
| "factory_name Tweet = ''createTweet''"

definition render_children :: "wstate \<Rightarrow> (jserror \<Rightarrow> 'm) option \<Rightarrow> 'm option" where
  "render_children s renderError =
     (case error s of
        None \<Rightarrow> None
      | Some e \<Rightarrow> (case renderError of None \<Rightarrow> None | Some f \<Rightarrow> Some (f e)))"

subsection \<open>The event router\<close>

text \<open>
  Entity ids are strings (the spec's handler registry maps an entity identifier, a
  string, to one callback); the empty string is the falsy one. Each of the three
  objects of \<^verbatim>\<open>HANDLERS\<close> is a map from ids to callbacks; only truthy callbacks are ever
  stored, so a lookup that finds an entry finds a callable one.
\<close>

type_synonym entity_id = string

record handlers =
  tweet :: "entity_id \<rightharpoonup> callback"
  retweet :: "entity_id \<rightharpoonup> callback"
  like :: "entity_id \<rightharpoonup> callback"

definition HANDLERS :: handlers where
  "HANDLERS = \<lparr>tweet = Map.empty, retweet = Map.empty, like = Map.empty\<rparr>"

record intent_data =
  tweet_id :: entity_id
  source_tweet_id :: entity_id

record intent =
  data :: intent_data

datatype dispatcher = BASE_HANDLERS_tweet | BASE_HANDLERS_retweet | BASE_HANDLERS_like

text \<open>
  Each object of \<^verbatim>\<open>HANDLERS\<close> is a plain object, so \<^verbatim>\<open>HANDLERS.like[id]\<close> that finds no
  entry goes on to the prototype. What \<^verbatim>\<open>Object.prototype\<close> holds under a name (ECMAScript,
  with the legacy accessors of browsers) is, for the dispatcher, one of: nothing; a
  function, which called as \<^verbatim>\<open>handler()\<close> with no \<^verbatim>\<open>this\<close> and no argument either returns or
  throws a \<^verbatim>\<open>TypeError\<close>; or, under \<^verbatim>\<open>__proto__\<close>, the prototype object itself, which is
  truthy and not callable.
\<close>

datatype member = Absent | Builtin bool | NotCallable | FunctionMember

definition Object_prototype :: "string \<Rightarrow> member" where
  "Object_prototype k =
     (if k = ''__proto__'' then NotCallable
      else if k \<in> set [''constructor'', ''toString'', ''isPrototypeOf''] then Builtin True
      else if k \<in> set [''toLocaleString'', ''valueOf'', ''hasOwnProperty'',
                        ''propertyIsEnumerable'', ''__defineGetter__'', ''__defineSetter__'',
                        ''__lookupGetter__'', ''__lookupSetter__''] then Builtin False
      else Absent)"

text \<open>
  The lookup. An entry stored under the name wins. A callback stored under
  \<^verbatim>\<open>__proto__\<close> is read back under that name, and by the same assignment it has become the
  prototype: what another name without an entry then resolves to depends on that
  function object, which the model does not have (\<open>FunctionMember\<close>).
\<close>

datatype found = Own callback | Inherited member

definition get_property :: "(entity_id \<rightharpoonup> callback) \<Rightarrow> string \<Rightarrow> found" where
  "get_property m k =
     (case m k of
        Some h \<Rightarrow> Own h
      | None \<Rightarrow>
          (case m ''__proto__'' of
             None \<Rightarrow> Inherited (Object_prototype k)
           | Some g \<Rightarrow> Inherited FunctionMember))"

text \<open>
  What a dispatcher did apart from invoking a registered callback: it called an
  inherited function, an exception left it, or its lookup went through a function
  object.
\<close>

datatype aside = CalledInherited string | Threw jserror | ThroughFunction string

text \<open>
  The process-wide state of the router: the registry, the log of invocations of
  registered callbacks, the log of \<^verbatim>\<open>events.bind\<close> calls, how many \<^verbatim>\<open>loadEvents\<close> are
  suspended at \<^verbatim>\<open>await twEventsFactory()\<close>, and the log of what else the dispatchers did.
\<close>

record router =
  registry :: handlers
  calls :: "invocation list"
  bind_calls :: "(string \<times> dispatcher) list"
  loading :: nat
  asides :: "aside list"

definition router0 :: router where
  "router0 = \<lparr>registry = HANDLERS, calls = [], bind_calls = [], loading = 0, asides = []\<rparr>"

text \<open>
  The body of a dispatcher after the lookup under name \<open>k\<close>:
  \<^verbatim>\<open>if (!handler) return; handler()\<close>.
\<close>

definition invoke_handler :: "found \<Rightarrow> string \<Rightarrow> router \<Rightarrow> router" where
  "invoke_handler handler k r =
     (case handler of
        Own h \<Rightarrow> r\<lparr>calls := calls r @ [(h, [])]\<rparr>
      | Inherited Absent \<Rightarrow> r
      | Inherited (Builtin returns) \<Rightarrow>
          if returns then r\<lparr>asides := asides r @ [CalledInherited k]\<rparr>
          else r\<lparr>asides := asides r @ [CalledInherited k, Threw TypeError]\<rparr>
      | Inherited NotCallable \<Rightarrow> r\<lparr>asides := asides r @ [Threw TypeError]\<rparr>
      | Inherited FunctionMember \<Rightarrow> r\<lparr>asides := asides r @ [ThroughFunction k]\<rparr>)"

fun dispatch :: "dispatcher \<Rightarrow> intent \<Rightarrow> router \<Rightarrow> router" where
  "dispatch BASE_HANDLERS_tweet i r =
     invoke_handler (get_property (tweet (registry r)) (tweet_id (data i)))
       (tweet_id (data i)) r"
| "dispatch BASE_HANDLERS_retweet i r =
     invoke_handler (get_property (retweet (registry r)) (source_tweet_id (data i)))
       (source_tweet_id (data i)) r"
| "dispatch BASE_HANDLERS_like i r =
     invoke_handler (get_property (like (registry r)) (tweet_id (data i)))
       (tweet_id (data i)) r"

text \<open>
  The first effect of \<^verbatim>\<open>useTwitterEvents\<close> (dependency list \<^verbatim>\<open>[]\<close>) runs when an instance
  mounts: \<^verbatim>\<open>loadEvents()\<close> is called and suspends. When \<^verbatim>\<open>twEventsFactory()\<close> resolves,
  one suspended \<^verbatim>\<open>loadEvents\<close> binds the three dispatchers; when it rejects, that
  \<^verbatim>\<open>loadEvents\<close> ends without binding.
\<close>

definition loadEvents_call :: "router \<Rightarrow> router" where
  "loadEvents_call r = r\<lparr>loading := Suc (loading r)\<rparr>"

definition loadEvents_resume :: "router \<Rightarrow> router" where
  "loadEvents_resume r =
     (if loading r = 0 then r
      else r\<lparr>loading := loading r - 1,
             bind_calls := bind_calls r @
               [(''tweet'', BASE_HANDLERS_tweet),
                (''retweet'', BASE_HANDLERS_retweet),
                (''like'', BASE_HANDLERS_like)]\<rparr>)"

definition loadEvents_reject :: "router \<Rightarrow> router" where
  "loadEvents_reject r = (if loading r = 0 then r else r\<lparr>loading := loading r - 1\<rparr>)"

text \<open>
  The other three effects of \<^verbatim>\<open>useTwitterEvents\<close>, run when \<^verbatim>\<open>id\<close> or the callback
  changes: store the callback under \<^verbatim>\<open>id\<close> unless either is falsy.
\<close>

definition effect_onTweet :: "entity_id \<Rightarrow> callback option \<Rightarrow> router \<Rightarrow> router" where
  "effect_onTweet i onTweet r =
     (case onTweet of
        None \<Rightarrow> r
      | Some cb \<Rightarrow>
          if i = [] then r
          else r\<lparr>registry := (registry r)\<lparr>tweet := (tweet (registry r))(i \<mapsto> cb)\<rparr>\<rparr>)"

definition effect_onRetweet :: "entity_id \<Rightarrow> callback option \<Rightarrow> router \<Rightarrow> router" where
  "effect_onRetweet i onRetweet r =
     (case onRetweet of
        None \<Rightarrow> r
      | Some cb \<Rightarrow>
          if i = [] then r
          else r\<lparr>registry := (registry r)\<lparr>retweet := (retweet (registry r))(i \<mapsto> cb)\<rparr>\<rparr>)"

definition effect_onLike :: "entity_id \<Rightarrow> callback option \<Rightarrow> router \<Rightarrow> router" where
  "effect_onLike i onLike r =
     (case onLike of
        None \<Rightarrow> r
      | Some cb \<Rightarrow>
          if i = [] then r
          else r\<lparr>registry := (registry r)\<lparr>like := (like (registry r))(i \<mapsto> cb)\<rparr>\<rparr>)"

text \<open>
  An instance that mounts with \<^verbatim>\<open>useTwitterEvents(id, {onTweet, onRetweet, onLike})\<close>
  runs all four effects in order; \<open>mount_instances\<close> mounts several instances, and
  \<open>resolve_loads\<close> lets that many suspended \<^verbatim>\<open>loadEvents\<close> resume.
\<close>

record event_props =
  ev_id :: entity_id
  ev_onTweet :: "callback option"
  ev_onRetweet :: "callback option"
  ev_onLike :: "callback option"

definition useTwitterEvents_mount :: "event_props \<Rightarrow> router \<Rightarrow> router" where
  "useTwitterEvents_mount p r =
     effect_onLike (ev_id p) (ev_onLike p)
       (effect_onRetweet (ev_id p) (ev_onRetweet p)
          (effect_onTweet (ev_id p) (ev_onTweet p) (loadEvents_call r)))"

fun mount_instances :: "event_props list \<Rightarrow> router \<Rightarrow> router" where
  "mount_instances [] r = r"
| "mount_instances (p # ps) r = mount_instances ps (useTwitterEvents_mount p r)"

fun resolve_loads :: "nat \<Rightarrow> router \<Rightarrow> router" where
  "resolve_loads 0 r = r"
| "resolve_loads (Suc n) r = resolve_loads n (loadEvents_resume r)"

definition bind_count :: "string \<Rightarrow> router \<Rightarrow> nat" where
  "bind_count kind r = length (filter (\<lambda>b. fst b = kind) (bind_calls r))"

subsection \<open>Concrete scenarios\<close>

text \<open>
  Closed inputs on which the model is evaluated: a Follow button for \<open>alice\<close> whose
  username then changes to \<open>bob\<close>, a Timeline whose data source and options are
  objects of the caller, the same with options that refer to the data source, a factory
  that adds a field to every object it can reach, and two Tweet instances with \<^verbatim>\<open>onLike\<close>
  callbacks.
\<close>

definition alice :: props where
  "alice = \<lparr>factoryFunctionName = factory_name Follow, primaryArg = Str ''alice'',
            options = Ref 0, onLoad = Some (Callback 1)\<rparr>"

definition bob :: props where
  "bob = \<lparr>factoryFunctionName = factory_name Follow, primaryArg = Str ''bob'',
          options = Ref 0, onLoad = Some (Callback 2)\<rparr>"

definition timeline :: props where
  "timeline = \<lparr>factoryFunctionName = factory_name Timeline, primaryArg = Ref 0,
               options = Ref 1, onLoad = None\<rparr>"

definition caller_heap :: store where
  "caller_heap =
     [[(''sourceType'', Str ''profile''), (''screenName'', Str ''alice'')],
      [(''height'', Str ''400'')]]"

definition twitter :: factory_call where
  "twitter = FactoryCall (\<lambda>a1 a3 h. map (\<lambda>ob. (''mutated'', Str ''yes'') # ob) h) None"

definition mounted :: wstate where
  "mounted = initial (Some []) caller_heap"

definition alice_calling :: wstate where
  "alice_calling = run mounted [RunEffect alice, WfSettled 0 (WfLoaded twitter)]"

definition alice_superseded :: wstate where
  "alice_superseded = run mounted [RunEffect alice, RunEffect bob]"

definition alice_then_bob :: wstate where
  "alice_then_bob = run mounted [RunEffect alice, RunEffect bob, WfSettled 0 (WfLoaded twitter)]"

definition timeline_loading :: wstate where
  "timeline_loading = run mounted [RunEffect timeline]"

definition aliased_heap :: store where
  "aliased_heap =
     [[(''sourceType'', Str ''profile''), (''screenName'', Str ''alice'')],
      [(''height'', Str ''400''), (''source'', Ref 0)]]"

definition aliased_loading :: wstate where
  "aliased_loading = run (initial (Some []) aliased_heap) [RunEffect timeline]"

definition follow_loading :: wstate where
  "follow_loading = run mounted [RunEffect alice]"

definition tweet_a :: event_props where
  "tweet_a = \<lparr>ev_id = ''20'', ev_onTweet = None, ev_onRetweet = None,
              ev_onLike = Some (Callback 1)\<rparr>"

definition tweet_b :: event_props where
  "tweet_b = \<lparr>ev_id = ''21'', ev_onTweet = None, ev_onRetweet = None,
              ev_onLike = Some (Callback 2)\<rparr>"

section \<open>Properties\<close>

lemmas model_defs =
  run_def initial_def cleanup_def loadWidget_def useTwitterWidget_effect_def set_phase_def
  catch_block_def
  wf_settled_def after_try_def call_settled_def tagged_children_def
  removeChildrenWithAttribute_def hasAttribute_def createElement_def setAttribute_def
  appendChild_def remove_node_def childDivIdentifyingAttribute_def cloneShallow_def
  render_children_def alice_def bob_def timeline_def
  caller_heap_def twitter_def mounted_def alice_calling_def alice_superseded_def
  aliased_heap_def aliased_loading_def follow_loading_def
  alice_then_bob_def
  timeline_loading_def Let_def

lemmas router_defs =
  router0_def HANDLERS_def invoke_handler_def loadEvents_call_def loadEvents_resume_def
  loadEvents_reject_def effect_onTweet_def effect_onRetweet_def effect_onLike_def
  useTwitterEvents_mount_def bind_count_def tweet_a_def tweet_b_def

subsection \<open>The sentinel-tagged container\<close>

text \<open>
  The cleanup function only sets a flag. The continuation of the first \<^verbatim>\<open>await\<close> leaves
  the mount point alone; the continuation of the second removes at most the session's
  own container; the effect sweeps every tagged child and appends one.
\<close>

lemma cleanup_fields:
  "ref_current (cleanup s) = ref_current s" "next_node (cleanup s) = next_node s"
  "factory_calls (cleanup s) = factory_calls s" "console (cleanup s) = console s"
  "length (sessions (cleanup s)) = length (sessions s)"
  by (simp_all add: cleanup_def)

lemma tagged_cleanup: "tagged_children (cleanup s) = tagged_children s"
  by (simp add: cleanup_def tagged_children_def)

lemma ref_set_phase: "ref_current (set_phase k ph s) = ref_current s"
  by (simp add: set_phase_def)

lemma ref_catch_block: "ref_current (catch_block k e s) = ref_current s"
  by (simp add: catch_block_def set_phase_def)

lemma ref_wf_settled: "ref_current (wf_settled k out s) = ref_current s"
  by (simp add: wf_settled_def ref_catch_block ref_set_phase Let_def
      split: wf_outcome.splits option.splits prod.splits)

lemma tagged_wf_settled: "tagged_children (wf_settled k out s) = tagged_children s"
  by (simp add: tagged_children_def ref_wf_settled)

lemma tagged_new_container:
  "hasAttribute (setAttribute childDivIdentifyingAttribute v (createElement t i))
     childDivIdentifyingAttribute"
  by (simp add: hasAttribute_def setAttribute_def createElement_def)

lemma swept_none_tagged:
  "filter (\<lambda>c. hasAttribute c a) (removeChildrenWithAttribute kids a) = []"
  by (simp add: removeChildrenWithAttribute_def)

lemma tagged_effect_present:
  "ref_current s = Some kids \<Longrightarrow>
   tagged_children (useTwitterWidget_effect p s) =
     [setAttribute childDivIdentifyingAttribute ''yes'' (createElement ''div'' (next_node s))]"
  by (simp add: useTwitterWidget_effect_def loadWidget_def tagged_children_def Let_def
      appendChild_def
      swept_none_tagged tagged_new_container)

lemma tagged_effect_absent:
  "ref_current s = None \<Longrightarrow> tagged_children (useTwitterWidget_effect p s) = []"
  by (simp add: useTwitterWidget_effect_def tagged_children_def Let_def)

lemma tagged_effect: "length (tagged_children (useTwitterWidget_effect p s)) \<le> 1"
  by (cases "ref_current s") (simp_all add: tagged_effect_present tagged_effect_absent)

lemma tagged_remove_node:
  "length (filter P (remove_node i kids)) \<le> length (filter P kids)"
  unfolding remove_node_def by (induction kids) auto

lemma tagged_after_try:
  "length (tagged_children (after_try k s)) \<le> length (tagged_children s)"
  by (simp add: after_try_def tagged_children_def Let_def ref_set_phase set_phase_def
      tagged_remove_node split: option.splits)

lemma tagged_call_settled:
  "length (tagged_children (call_settled k out s)) \<le> length (tagged_children s)"
  by (simp add: call_settled_def tagged_children_def ref_catch_block
      tagged_after_try [unfolded tagged_children_def] split: call_outcome.splits)

lemma tagged_step:
  "length (tagged_children s) \<le> 1 \<Longrightarrow> length (tagged_children (step s e)) \<le> 1"
proof (cases e)
  case (RunEffect p)
  with tagged_effect [of p "cleanup s"] show ?thesis by simp
next
  case Unmount
  then show ?thesis by (simp add: tagged_cleanup) (simp add: tagged_children_def)
next
  case (WfSettled k out)
  assume "length (tagged_children s) \<le> 1"
  with WfSettled show ?thesis by (simp add: tagged_wf_settled)
next
  case (CallSettled k out)
  assume "length (tagged_children s) \<le> 1"
  with CallSettled tagged_call_settled [of k out s] show ?thesis by simp
qed

lemma tagged_run:
  "length (tagged_children s) \<le> 1 \<Longrightarrow> length (tagged_children (run s evs)) \<le> 1"
  unfolding run_def
proof (induction evs arbitrary: s)
  case Nil
  then show ?case by simp
next
  case (Cons e evs)
  from Cons.prems have "length (tagged_children (step s e)) \<le> 1" by (rule tagged_step)
  then have "length (tagged_children (foldl step (step s e) evs)) \<le> 1" by (rule Cons.IH)
  then show ?case by simp
qed

subsection \<open>The object store\<close>

lemma heap_cleanup: "heap (cleanup s) = heap s"
  by (simp add: cleanup_def)

lemma heap_effect: "heap (useTwitterWidget_effect p s) = heap s"
  by (simp add: useTwitterWidget_effect_def loadWidget_def Let_def split: option.splits)

text \<open>
  The cleanup function and the effect leave the store alone. The factory call writes
  only where its arguments reach; when the arguments are clones of flat objects, that
  is the clones themselves.
\<close>

lemma edges_iff:
  "(a, b) \<in> edges h \<longleftrightarrow> a < length h \<and> b \<in> set (refs_of (h ! a)) \<and> b < length h"
  by (auto simp: edges_def)

lemma arg_addrs_iff: "a \<in> set (arg_addrs h args) \<longleftrightarrow> Ref a \<in> set args \<and> a < length h"
proof -
  have "a \<in> set (concat (map (\<lambda>v. case v of Ref a \<Rightarrow> [a] | _ \<Rightarrow> []) args)) \<longleftrightarrow>
        Ref a \<in> set args"
    by (induction args) (auto split: jsval.splits)
  then show ?thesis by (simp add: arg_addrs_def)
qed

lemma reaches_argument: "Ref a \<in> set args \<Longrightarrow> a < length h \<Longrightarrow> reaches h args a"
  by (auto simp: reaches_def list_ex_iff arg_addrs_iff)

lemma reaches_valid: "reaches h args c \<Longrightarrow> c < length h"
  by (auto simp: reaches_def list_ex_iff arg_addrs_iff edges_iff elim: tranclE)

lemma reaches_field:
  assumes "reaches h args a" and "b \<in> set (refs_of (h ! a))" and "b < length h"
  shows "reaches h args b"
proof -
  from assms(1) have "a < length h" by (rule reaches_valid)
  with assms(2,3) have e: "(a, b) \<in> edges h" by (simp add: edges_iff)
  from assms(1) obtain r where r: "r \<in> set (arg_addrs h args)"
    and "r = a \<or> (r, a) \<in> (edges h)\<^sup>+"
    by (auto simp: reaches_def list_ex_iff)
  with e have "(r, b) \<in> (edges h)\<^sup>+" by auto
  with r show ?thesis by (auto simp: reaches_def list_ex_iff)
qed













subsection \<open>Cancellation\<close>

text \<open>
  A canceled session whose factory call is fulfilled, with a usable result or without
  one, leaves the error state and the console alone and calls no callback; and no
  continuation of a canceled session ever calls \<^verbatim>\<open>onLoad\<close>, whatever the outcome.
\<close>

lemma canceled_resolved_silent:
  assumes "isCanceled (sessions s ! k)"
  shows "error (call_settled k (CallResolved r) s) = error s"
    and "console (call_settled k (CallResolved r) s) = console s"
    and "invoked (call_settled k (CallResolved r) s) = invoked s"
  using assms
  by (simp_all add: call_settled_def after_try_def set_phase_def Let_def split: option.splits)

lemma canceled_no_onLoad:
  assumes "isCanceled (sessions s ! k)"
  shows "invoked (call_settled k out s) = invoked s"
    and "invoked (wf_settled k out' s) = invoked s"
  using assms
  by (simp_all add: call_settled_def wf_settled_def after_try_def catch_block_def set_phase_def
      Let_def split: option.splits call_outcome.splits wf_outcome.splits prod.splits)

text \<open>
  A rejection, of \<^verbatim>\<open>twWidgetFactory()\<close> or of the factory call, is stored as the error
  state whether or not the session is canceled.
\<close>

lemma rejection_sets_error:
  assumes "k < length (sessions s)"
  shows "phase (sessions s ! k) = AwaitCall \<Longrightarrow>
           error (call_settled k (CallRejected e) s) = Some e"
    and "phase (sessions s ! k) = AwaitWf \<Longrightarrow>
           error (wf_settled k (WfRejected e) s) = Some e"
  using assms
  by (simp_all add: call_settled_def wf_settled_def catch_block_def set_phase_def)

text \<open>
  Claim C1: a session canceled before its factory call resolves sets no error state
  and does not invoke \<^verbatim>\<open>onLoad\<close>, whether the call would have succeeded, returned no
  result, or thrown or rejected.

  The \<^verbatim>\<open>catch\<close> block does not read \<^verbatim>\<open>isCanceled\<close>: the guard \<^verbatim>\<open>!isCanceled\<close> protects only
  the error thrown for a missing result. The theorem evaluates the code where the claim
  fails: the username changes from \<open>alice\<close> to \<open>bob\<close>, so the first session is
  canceled while its factory call is pending and the second session has reset the
  error; then the first session's call rejects, and the error state becomes that
  rejection. The same happens when the session is canceled while it waits for
  \<^verbatim>\<open>twWidgetFactory()\<close> and that promise rejects.
\<close>

theorem canceled_session_rejection_sets_error:
  "isCanceled (sessions alice_then_bob ! 0) \<and>
   phase (sessions alice_then_bob ! 0) = AwaitCall \<and>
   \<not> isCanceled (sessions alice_then_bob ! 1) \<and>
   error alice_then_bob = None \<and>
   error (step alice_then_bob (CallSettled 0 (CallRejected (Error ''boom'')))) =
     Some (Error ''boom'') \<and>
   isCanceled (sessions alice_superseded ! 0) \<and>
   phase (sessions alice_superseded ! 0) = AwaitWf \<and>
   error alice_superseded = None \<and>
   error (step alice_superseded (WfSettled 0 (WfRejected (Error ''no script'')))) =
     Some (Error ''no script'')"
  by (simp add: model_defs)

subsection \<open>Binding the dispatchers\<close>

text \<open>
  Every instance that mounts calls \<^verbatim>\<open>loadEvents\<close>, and every \<^verbatim>\<open>loadEvents\<close> that resumes
  binds the three dispatchers: with \<open>n\<close> instances each event kind is bound \<open>n\<close> times.
\<close>

lemma mount_instances_loading:
  "loading (mount_instances ps r) = loading r + length ps \<and>
   bind_calls (mount_instances ps r) = bind_calls r"
  by (induction ps arbitrary: r)
     (simp_all add: useTwitterEvents_mount_def loadEvents_call_def effect_onTweet_def
        effect_onRetweet_def effect_onLike_def split: option.splits)

lemma resolve_loads_binds:
  "n \<le> loading r \<Longrightarrow>
   kind \<in> {''tweet'', ''retweet'', ''like''} \<Longrightarrow>
   bind_count kind (resolve_loads n r) = bind_count kind r + n"
proof (induction n arbitrary: r)
  case 0
  then show ?case by simp
next
  case (Suc n)
  from Suc.prems have l: "n \<le> loading (loadEvents_resume r)"
    by (simp add: loadEvents_resume_def)
  from Suc.prems have b: "bind_count kind (loadEvents_resume r) = Suc (bind_count kind r)"
    by (auto simp: loadEvents_resume_def bind_count_def)
  from Suc.IH [OF l Suc.prems(2)] b show ?case by simp
qed

lemma binds_once_per_instance:
  assumes "kind \<in> {''tweet'', ''retweet'', ''like''}"
  shows "bind_count kind (resolve_loads (length ps) (mount_instances ps router0)) = length ps"
proof -
  have "length ps \<le> loading (mount_instances ps router0)"
    by (simp add: mount_instances_loading)
  from resolve_loads_binds [OF this assms]
  show ?thesis by (simp add: bind_count_def mount_instances_loading router0_def)
qed

text \<open>
  Claim C2: the three dispatchers for \<^verbatim>\<open>tweet\<close>, \<^verbatim>\<open>retweet\<close> and \<^verbatim>\<open>like\<close> are registered
  with \<^verbatim>\<open>events.bind\<close> exactly once per process, however many instances use
  \<^verbatim>\<open>useTwitterEvents\<close>.

  The effect that calls \<^verbatim>\<open>loadEvents\<close> has the dependency list \<^verbatim>\<open>[]\<close>, which is once per
  instance, and nothing records that the dispatchers are bound already. The theorem
  evaluates the code for two mounted Tweet instances: six calls of \<^verbatim>\<open>events.bind\<close>, two
  for each event kind.
\<close>

theorem two_instances_bind_twice:
  "bind_calls (resolve_loads 2 (mount_instances [tweet_a, tweet_b] router0)) =
     [(''tweet'', BASE_HANDLERS_tweet), (''retweet'', BASE_HANDLERS_retweet),
      (''like'', BASE_HANDLERS_like),
      (''tweet'', BASE_HANDLERS_tweet), (''retweet'', BASE_HANDLERS_retweet),
      (''like'', BASE_HANDLERS_like)] \<and>
   bind_count ''tweet'' (resolve_loads 2 (mount_instances [tweet_a, tweet_b] router0)) = 2 \<and>
   bind_count ''retweet'' (resolve_loads 2 (mount_instances [tweet_a, tweet_b] router0)) = 2 \<and>
   bind_count ''like'' (resolve_loads 2 (mount_instances [tweet_a, tweet_b] router0)) = 2"
  by (simp add: router_defs numeral_2_eq_2)

subsection \<open>One container at a time\<close>

lemma tagged_after_effect:
  "tagged_children (step t (RunEffect p)) =
     (case ref_current t of
        None \<Rightarrow> []
      | Some kids \<Rightarrow>
          [setAttribute childDivIdentifyingAttribute ''yes''
             (createElement ''div'' (next_node t))])"
proof (cases "ref_current t")
  case None
  then have "ref_current (cleanup t) = None" by (simp add: cleanup_fields)
  with None show ?thesis by (simp add: tagged_effect_absent)
next
  case (Some kids)
  then have "ref_current (cleanup t) = Some kids" by (simp add: cleanup_fields)
  from tagged_effect_present [OF this, of p] Some show ?thesis
    by (simp add: cleanup_fields)
qed

text \<open>
  Claim C3: for every sequence of dependency changes to one instance (interleaved in
  any way with unmounting and with the continuations of its sessions), at most one
  child of the mount point carries the sentinel attribute \<^verbatim>\<open>twdiv\<close> at any time: the
  sweep leaves no tagged child, and after a run of the effect the tagged children are
  exactly the container that this run created (none when there is no mount point).
\<close>

theorem at_most_one_tagged_container:
  assumes "length (tagged_children s) \<le> 1"
  shows "length (tagged_children (run s evs)) \<le> 1 \<and>
         filter (\<lambda>c. hasAttribute c childDivIdentifyingAttribute)
           (removeChildrenWithAttribute kids childDivIdentifyingAttribute) = [] \<and>
         tagged_children (step (run s evs) (RunEffect p)) =
           (case ref_current (run s evs) of
              None \<Rightarrow> []
            | Some kids \<Rightarrow>
                [setAttribute childDivIdentifyingAttribute ''yes''
                   (createElement ''div'' (next_node (run s evs)))])"
proof -
  from assms have a: "length (tagged_children (run s evs)) \<le> 1" by (rule tagged_run)
  from a tagged_after_effect [of "run s evs" p]
    swept_none_tagged [of childDivIdentifyingAttribute kids]
  show ?thesis by blast
qed

theorem at_most_one_tagged_container_witness:
  "length (tagged_children mounted) \<le> 1 \<and>
   length (tagged_children
     (run mounted [RunEffect alice, RunEffect bob, WfSettled 0 (WfLoaded twitter),
        CallSettled 0 (CallResolved True)])) \<le> 1"
proof -
  have h: "length (tagged_children mounted) \<le> 1" by (simp add: model_defs)
  from at_most_one_tagged_container [OF h] h show ?thesis by blast
qed


subsection \<open>Outcomes of the factory call\<close>

text \<open>
  Claim C4: when the factory call is fulfilled with no usable result and the session
  is not canceled, the error state becomes the error that says the widget could not be
  created and that the screen name or tweet id may not exist; the error is logged, no
  callback is called, and the component hands the error to \<^verbatim>\<open>renderError\<close> when one is
  provided.
\<close>

theorem no_result_sets_error:
  assumes "k < length (sessions s)"
    and "phase (sessions s ! k) = AwaitCall"
    and "\<not> isCanceled (sessions s ! k)"
  shows "error (call_settled k (CallResolved False) s) =
           Some (Error (''Twitter could not create widget. If it is a Timeline or '' @
                        ''Tweet, ensure the screenName/tweetId exists.'')) \<and>
         console (call_settled k (CallResolved False) s) =
           console s @ [Error could_not_create] \<and>
         invoked (call_settled k (CallResolved False) s) = invoked s \<and>
         render_children (call_settled k (CallResolved False) s) (Some renderError) =
           Some (renderError (Error could_not_create))"
  using assms
  by (simp add: call_settled_def catch_block_def set_phase_def render_children_def
      could_not_create_def)

theorem no_result_sets_error_witness:
  "0 < length (sessions alice_calling) \<and>
   phase (sessions alice_calling ! 0) = AwaitCall \<and>
   \<not> isCanceled (sessions alice_calling ! 0) \<and>
   error (call_settled 0 (CallResolved False) alice_calling) =
     Some (Error (''Twitter could not create widget. If it is a Timeline or '' @
                  ''Tweet, ensure the screenName/tweetId exists.'')) \<and>
   render_children (call_settled 0 (CallResolved False) alice_calling)
     (Some (\<lambda>e. (''p'', e))) = Some (''p'', Error could_not_create)"
proof -
  have h1: "0 < length (sessions alice_calling)" by (simp add: model_defs)
  have h2: "phase (sessions alice_calling ! 0) = AwaitCall" by (simp add: model_defs)
  have h3: "\<not> isCanceled (sessions alice_calling ! 0)" by (simp add: model_defs)
  from no_result_sets_error [OF h1 h2 h3, of "\<lambda>e. (''p'', e)"] h1 h2 h3
  show ?thesis by blast
qed

text \<open>Without an \<^verbatim>\<open>onLoad\<close> a successful session calls nothing.\<close>

lemma success_without_onLoad:
  assumes "k < length (sessions s)"
    and "phase (sessions s ! k) = AwaitCall"
    and "onLoad (closure (sessions s ! k)) = None"
  shows "invoked (call_settled k (CallResolved True) s) = invoked s"
  using assms
  by (simp add: call_settled_def after_try_def set_phase_def Let_def split: option.splits)

text \<open>
  Claim C8: when the factory call yields a usable result, the session is not canceled
  and the mount point still exists, the provided \<^verbatim>\<open>onLoad\<close> is invoked, with no
  arguments; the error state, the console and the mount point stay as they are.
\<close>

theorem success_invokes_onLoad:
  assumes "k < length (sessions s)"
    and "phase (sessions s ! k) = AwaitCall"
    and "\<not> isCanceled (sessions s ! k)"
    and "ref_current s = Some kids"
    and "onLoad (closure (sessions s ! k)) = Some cb"
  shows "invoked (call_settled k (CallResolved True) s) = invoked s @ [(cb, [])] \<and>
         error (call_settled k (CallResolved True) s) = error s \<and>
         console (call_settled k (CallResolved True) s) = console s \<and>
         ref_current (call_settled k (CallResolved True) s) = ref_current s"
  using assms
  by (simp add: call_settled_def after_try_def set_phase_def Let_def)

theorem success_invokes_onLoad_witness:
  "0 < length (sessions alice_calling) \<and>
   phase (sessions alice_calling ! 0) = AwaitCall \<and>
   \<not> isCanceled (sessions alice_calling ! 0) \<and>
   ref_current alice_calling =
     Some [\<lparr>node_id = 0, tag = ''div'', attrs = [(''twdiv'', ''yes'')]\<rparr>] \<and>
   onLoad (closure (sessions alice_calling ! 0)) = Some (Callback 1) \<and>
   invoked alice_calling = [] \<and>
   invoked (call_settled 0 (CallResolved True) alice_calling) = [(Callback 1, [])]"
proof -
  have h1: "0 < length (sessions alice_calling)" by (simp add: model_defs)
  have h2: "phase (sessions alice_calling ! 0) = AwaitCall" by (simp add: model_defs)
  have h3: "\<not> isCanceled (sessions alice_calling ! 0)" by (simp add: model_defs)
  have h4: "ref_current alice_calling =
      Some [\<lparr>node_id = 0, tag = ''div'', attrs = [(''twdiv'', ''yes'')]\<rparr>]"
    by (simp add: model_defs)
  have h5: "onLoad (closure (sessions alice_calling ! 0)) = Some (Callback 1)"
    by (simp add: model_defs)
  have h6: "invoked alice_calling = []" by (simp add: model_defs)
  from success_invokes_onLoad [OF h1 h2 h3 h4 h5] h6
  have "invoked (call_settled 0 (CallResolved True) alice_calling) = [(Callback 1, [])]"
    by simp
  with h1 h2 h3 h4 h5 h6 show ?thesis by blast
qed

subsection \<open>No mount point\<close>

lemma effect_skipped:
  "ref_current s = None \<Longrightarrow>
   useTwitterWidget_effect p s =
     s\<lparr>error := None,
       sessions := sessions s @
         [\<lparr>isCanceled = False, childEl = None, phase = NotStarted, closure = p\<rparr>]\<rparr>"
  by (simp add: useTwitterWidget_effect_def Let_def)

text \<open>
  Claim C9: when \<^verbatim>\<open>ref.current\<close> is null at effect time the mount sequence is skipped:
  no element is created or appended, the factory is not called and nothing is cloned,
  the error state is null and nothing is logged; the new session has no container and
  no suspended \<^verbatim>\<open>loadWidget\<close>, so no continuation of it can do anything later.
\<close>

theorem missing_mount_point_skips:
  assumes "ref_current s = None"
  shows "ref_current (step s (RunEffect p)) = None \<and>
         next_node (step s (RunEffect p)) = next_node s \<and>
         factory_calls (step s (RunEffect p)) = factory_calls s \<and>
         heap (step s (RunEffect p)) = heap s \<and>
         error (step s (RunEffect p)) = None \<and>
         console (step s (RunEffect p)) = console s \<and>
         length (sessions (step s (RunEffect p))) = Suc (length (sessions s)) \<and>
         childEl (last (sessions (step s (RunEffect p)))) = None \<and>
         phase (last (sessions (step s (RunEffect p)))) = NotStarted \<and>
         wf_settled (length (sessions s)) out (step s (RunEffect p)) = step s (RunEffect p) \<and>
         call_settled (length (sessions s)) out' (step s (RunEffect p)) = step s (RunEffect p)"
proof -
  from assms have r: "ref_current (cleanup s) = None" by (simp add: cleanup_fields)
  have st: "step s (RunEffect p) =
      (cleanup s)\<lparr>error := None,
        sessions := sessions (cleanup s) @
          [\<lparr>isCanceled = False, childEl = None, phase = NotStarted, closure = p\<rparr>]\<rparr>"
    by (simp add: effect_skipped [OF r])
  show ?thesis
    unfolding st
    by (simp add: cleanup_fields heap_cleanup assms wf_settled_def call_settled_def
        nth_append)
qed

theorem missing_mount_point_skips_witness:
  "ref_current (initial None caller_heap) = None \<and>
   ref_current (step (initial None caller_heap) (RunEffect alice)) = None \<and>
   next_node (step (initial None caller_heap) (RunEffect alice)) = 0 \<and>
   factory_calls (step (initial None caller_heap) (RunEffect alice)) = [] \<and>
   error (step (initial None caller_heap) (RunEffect alice)) = None"
proof -
  have h: "ref_current (initial None caller_heap) = None" by (simp add: initial_def)
  have n: "next_node (initial None caller_heap) = 0"
    and f: "factory_calls (initial None caller_heap) = []" by (simp_all add: initial_def)
  from missing_mount_point_skips [OF h, of alice] h n f show ?thesis by simp
qed

subsection \<open>The handler registry\<close>

text \<open>
  A dispatcher invokes at most one registered callback; it invokes the entry stored
  under the id when there is one, and no registered callback otherwise; an effect whose
  callback or id is falsy leaves the registry as it is.
\<close>

lemma dispatch_at_most_one:
  "length (calls (dispatch d i r)) \<le> Suc (length (calls r))"
  by (cases d)
     (simp_all add: invoke_handler_def split: found.splits member.splits)

lemma own_entry_found: "m k = Some h \<Longrightarrow> get_property m k = Own h"
  by (simp add: get_property_def)


lemma calls_without_own_entry:
  "m k = None \<Longrightarrow> calls (invoke_handler (get_property m k) k r) = calls r"
  by (simp add: get_property_def invoke_handler_def split: option.splits member.splits)

lemma calls_after_registration:
  "k \<noteq> X \<Longrightarrow>
   calls (invoke_handler (get_property (m(X \<mapsto> h)) k) k r) =
   calls (invoke_handler (get_property m k) k r)"
  by (cases "m k")
     (simp_all add: get_property_def invoke_handler_def split: option.splits member.splits)

lemma absent_callback_keeps_entry:
  "effect_onTweet i None r = r" "effect_onRetweet i None r = r" "effect_onLike i None r = r"
  "effect_onTweet [] cb r = r" "effect_onRetweet [] cb r = r" "effect_onLike [] cb r = r"
  by (simp_all add: effect_onTweet_def effect_onRetweet_def effect_onLike_def
      split: option.splits)



lemma dispatch_inherited_name:
  assumes "like (registry r) k = None" and "like (registry r) ''__proto__'' = None"
  shows "dispatch BASE_HANDLERS_like \<lparr>data = \<lparr>tweet_id = k, source_tweet_id = z\<rparr>\<rparr> r =
           invoke_handler (Inherited (Object_prototype k)) k r"
  using assms by (simp add: get_property_def)

text \<open>
  Claim C6, as stated, says that an event whose id has no registered handler invokes
  nothing and does nothing. The lookup is a property read on a plain object: under
  the name \<^verbatim>\<open>__proto__\<close>, with nothing registered there, it finds \<^verbatim>\<open>Object.prototype\<close>, which
  passes the test \<^verbatim>\<open>!handler\<close>, and \<^verbatim>\<open>handler()\<close> throws a \<^verbatim>\<open>TypeError\<close>.
\<close>

theorem like_event_inherited_name_throws:
  "''20'' \<noteq> [] \<and> ''__proto__'' \<noteq> ''20'' \<and>
   like (registry (effect_onLike ''20'' (Some (Callback 1)) router0)) ''__proto__'' = None \<and>
   dispatch BASE_HANDLERS_like \<lparr>data = \<lparr>tweet_id = ''__proto__'', source_tweet_id = ''''\<rparr>\<rparr>
     (effect_onLike ''20'' (Some (Callback 1)) router0) =
   (effect_onLike ''20'' (Some (Callback 1)) router0)\<lparr>asides := [Threw TypeError]\<rparr> \<and>
   dispatch BASE_HANDLERS_like \<lparr>data = \<lparr>tweet_id = ''__proto__'', source_tweet_id = ''''\<rparr>\<rparr>
     (effect_onLike ''20'' (Some (Callback 1)) router0) \<noteq>
   effect_onLike ''20'' (Some (Callback 1)) router0"
  by (simp add: effect_onLike_def router0_def HANDLERS_def get_property_def
      Object_prototype_def invoke_handler_def)

text \<open>
  Claim C6, amended: after a handler is registered for id \<open>X\<close> under \<^verbatim>\<open>like\<close>, a \<^verbatim>\<open>like\<close>
  event whose \<^verbatim>\<open>data.tweet_id\<close> is \<open>X\<close> invokes it exactly once, with no arguments, and
  changes nothing else; an event with another id, one that has no handler and is not
  the name of a member that the registry object inherits from \<^verbatim>\<open>Object.prototype\<close>
  (nothing being stored under \<^verbatim>\<open>__proto__\<close>), invokes nothing and leaves the state as it
  is.
\<close>

theorem like_handler_fires_once:
  assumes "X \<noteq> []"
    and "Y \<noteq> X"
    and "like (registry r) Y = None"
    and "Object_prototype Y = Absent"
    and "X \<noteq> ''__proto__''"
    and "like (registry r) ''__proto__'' = None"
  shows "dispatch BASE_HANDLERS_like \<lparr>data = \<lparr>tweet_id = X, source_tweet_id = z\<rparr>\<rparr>
           (effect_onLike X (Some h) r) =
           (effect_onLike X (Some h) r)\<lparr>calls := calls r @ [(h, [])]\<rparr> \<and>
         dispatch BASE_HANDLERS_like \<lparr>data = \<lparr>tweet_id = Y, source_tweet_id = z\<rparr>\<rparr>
           (effect_onLike X (Some h) r) =
           effect_onLike X (Some h) r \<and>
         dispatch BASE_HANDLERS_like \<lparr>data = \<lparr>tweet_id = Y, source_tweet_id = z\<rparr>\<rparr> r = r"
  using assms
  by (simp add: effect_onLike_def invoke_handler_def get_property_def)

theorem like_handler_fires_once_witness:
  "''20'' \<noteq> [] \<and> ''21'' \<noteq> ''20'' \<and> like (registry router0) ''21'' = None \<and>
   Object_prototype ''21'' = Absent \<and> ''20'' \<noteq> ''__proto__'' \<and>
   like (registry router0) ''__proto__'' = None \<and>
   dispatch BASE_HANDLERS_like \<lparr>data = \<lparr>tweet_id = ''20'', source_tweet_id = ''''\<rparr>\<rparr>
     (effect_onLike ''20'' (Some (Callback 1)) router0) =
   (effect_onLike ''20'' (Some (Callback 1)) router0)\<lparr>calls := calls router0 @ [(Callback 1, [])]\<rparr> \<and>
   dispatch BASE_HANDLERS_like \<lparr>data = \<lparr>tweet_id = ''21'', source_tweet_id = ''''\<rparr>\<rparr>
     (effect_onLike ''20'' (Some (Callback 1)) router0) =
   effect_onLike ''20'' (Some (Callback 1)) router0"
proof -
  have h1: "''20'' \<noteq> []" by simp
  have h2: "''21'' \<noteq> ''20''" by simp
  have h3: "like (registry router0) ''21'' = None" by (simp add: router0_def HANDLERS_def)
  have h4: "Object_prototype ''21'' = Absent" by (simp add: Object_prototype_def)
  have h5: "''20'' \<noteq> ''__proto__''" by simp
  have h6: "like (registry router0) ''__proto__'' = None"
    by (simp add: router0_def HANDLERS_def)
  from like_handler_fires_once [OF h1 h2 h3 h4 h5 h6, of "''''" "Callback 1"] h1 h2 h3 h4 h5 h6
  show ?thesis by blast
qed



end
